theory Spec2Isabelle
  imports Complex_Main
begin

section \<open>Python values, errors and arrays\<close>

text \<open>
  The model follows \<^verbatim>\<open>src/neural_models/hindmarsh_rose.py\<close>. Python numbers are read
  in exact arithmetic: an \<^verbatim>\<open>int\<close>, a \<^verbatim>\<open>bool\<close> and a \<^verbatim>\<open>float\<close> are modelled by the real
  number they denote, so rounding of binary floating point is not part of the model.
  The values a caller can hand to the constructor keep their dynamic type, because
  \<^verbatim>\<open>check_parameters\<close> inspects it.
\<close>

datatype pyval = PNone | PBool bool | PInt int | PFloat real | PStr string

datatype error =
    AssertionError string
  | ZeroDivisionError
  | IndexError
  | RuntimeError string

text \<open>\<^verbatim>\<open>isinstance(v, (int, float))\<close>: \<^verbatim>\<open>bool\<close> is a subclass of \<^verbatim>\<open>int\<close>.\<close>

fun isinstance_int_float :: "pyval \<Rightarrow> bool" where
  "isinstance_int_float (PBool _) = True"
| "isinstance_int_float (PInt _) = True"
| "isinstance_int_float (PFloat _) = True"
| "isinstance_int_float PNone = False"
| "isinstance_int_float (PStr _) = False"

text \<open>
  The number a validated attribute denotes (\<^verbatim>\<open>True\<close> is 1, \<^verbatim>\<open>False\<close> is 0). The last two
  equations are never reached: the constructor applies \<open>number\<close> only after
  \<^verbatim>\<open>check_parameters\<close> has accepted the value.
\<close>

fun number :: "pyval \<Rightarrow> real" where
  "number (PBool b) = (if b then 1 else 0)"
| "number (PInt i) = of_int i"
| "number (PFloat r) = r"
| "number PNone = 0"
| "number (PStr _) = 0"

text \<open>A two-dimensional array of shape \<open>(length (rows A), ncols A)\<close>; every row has \<open>ncols A\<close> entries.\<close>

datatype ndarray = NDArray (ncols: nat) (rows: "real list list")

text \<open>\<^verbatim>\<open>X[:, j]\<close>: column \<open>j\<close>, an \<^verbatim>\<open>IndexError\<close> when the array has no such column.\<close>

definition column :: "ndarray \<Rightarrow> nat \<Rightarrow> error + real list" where
  "column X j = (if j < ncols X then Inr (map (\<lambda>row. row ! j) (rows X)) else Inl IndexError)"

text \<open>
  \<^verbatim>\<open>np.arange(start, stop, step)\<close> on Python numbers: the length is the ceiling of
  \<^verbatim>\<open>(stop - start) / step\<close>, not below zero, and dividing by a zero step raises
  \<^verbatim>\<open>ZeroDivisionError\<close>; entry \<open>i\<close> is \<^verbatim>\<open>start + i * step\<close>.
\<close>

definition np_arange :: "real \<Rightarrow> real \<Rightarrow> real \<Rightarrow> error + real list" where
  "np_arange start stop step =
     (if step = 0 then Inl ZeroDivisionError
      else Inr (map (\<lambda>i. start + real i * step) [0 ..< nat \<lceil>(stop - start) / step\<rceil>]))"

section \<open>The class HindmarshRose\<close>

text \<open>
  The attributes as \<^verbatim>\<open>__init__\<close> assigns them, before validation: whatever the caller
  passed, or the default.
\<close>

record attributes =
  attr_I :: pyval
  attr_a :: pyval
  attr_b :: pyval
  attr_c :: pyval
  attr_d :: pyval
  attr_r :: pyval
  attr_s :: pyval
  attr_x1 :: pyval
  attr_dt :: pyval
  attr_time :: pyval

text \<open>
  A constructed object. The ten parameters hold numbers; \<^verbatim>\<open>self.x\<close>, \<^verbatim>\<open>self.y\<close> and
  \<^verbatim>\<open>self.z\<close> do not exist before the first \<^verbatim>\<open>run\<close> (\<open>None\<close>).
\<close>

record HindmarshRose =
  self_I :: real
  self_a :: real
  self_b :: real
  self_c :: real
  self_d :: real
  self_r :: real
  self_s :: real
  self_x1 :: real
  self_dt :: real
  self_time :: real
  self_x :: "real list option"
  self_y :: "real list option"
  self_z :: "real list option"

type_synonym kwargs = "string \<rightharpoonup> pyval"

text \<open>\<^verbatim>\<open>kwargs.get(key, default)\<close>\<close>

definition kwargs_get :: "kwargs \<Rightarrow> string \<Rightarrow> pyval \<Rightarrow> pyval" where
  "kwargs_get kw k dflt = (case kw k of None \<Rightarrow> dflt | Some v \<Rightarrow> v)"

text \<open>\<^verbatim>\<open>check_parameters\<close>: ten assertions, in the order of the source; the first that fails raises.\<close>

definition check_parameters :: "attributes \<Rightarrow> error + unit" where
  "check_parameters self =
     (if \<not> isinstance_int_float (attr_I self)
        then Inl (AssertionError ''The current (I) has to be a number.'')
      else if \<not> isinstance_int_float (attr_a self)
        then Inl (AssertionError ''The parameter a has to be a number.'')
      else if \<not> isinstance_int_float (attr_b self)
        then Inl (AssertionError ''The parameter b has to be a number.'')
      else if \<not> isinstance_int_float (attr_c self)
        then Inl (AssertionError ''The parameter c has to be a number.'')
      else if \<not> isinstance_int_float (attr_d self)
        then Inl (AssertionError ''The parameter d has to be a number.'')
      else if \<not> isinstance_int_float (attr_r self)
        then Inl (AssertionError ''The parameter r has to be a number.'')
      else if \<not> isinstance_int_float (attr_x1 self)
        then Inl (AssertionError ''The parameter x1 has to be a number.'')
      else if \<not> isinstance_int_float (attr_s self)
        then Inl (AssertionError ''The parameter s has to be a number.'')
      else if \<not> isinstance_int_float (attr_dt self)
        then Inl (AssertionError ''The step (dt) has to be a number.'')
      else if \<not> isinstance_int_float (attr_time self)
        then Inl (AssertionError ''The time has to be a number.'')
      else Inr ())"

text \<open>The assignments of \<^verbatim>\<open>__init__\<close>, lines 26 to 35.\<close>

definition init_attributes :: "kwargs \<Rightarrow> attributes" where
  "init_attributes kw =
     \<lparr> attr_I = kwargs_get kw ''I'' (PInt 1),
       attr_a = kwargs_get kw ''a'' (PFloat (1/2)),
       attr_b = kwargs_get kw ''b'' (PFloat (1/2)),
       attr_c = kwargs_get kw ''c'' (PFloat (1/2)),
       attr_d = kwargs_get kw ''d'' (PFloat (1/2)),
       attr_r = kwargs_get kw ''r'' (PInt 1),
       attr_s = kwargs_get kw ''s'' (PInt 1),
       attr_x1 = kwargs_get kw ''x1'' (PInt (- 1)),
       attr_dt = kwargs_get kw ''dt'' (PFloat (1/100)),
       attr_time = kwargs_get kw ''time'' (PInt 100) \<rparr>"

text \<open>The object that exists once \<^verbatim>\<open>check_parameters\<close> has returned.\<close>

definition object_of :: "attributes \<Rightarrow> HindmarshRose" where
  "object_of attrs =
     \<lparr> self_I = number (attr_I attrs),
       self_a = number (attr_a attrs),
       self_b = number (attr_b attrs),
       self_c = number (attr_c attrs),
       self_d = number (attr_d attrs),
       self_r = number (attr_r attrs),
       self_s = number (attr_s attrs),
       self_x1 = number (attr_x1 attrs),
       self_dt = number (attr_dt attrs),
       self_time = number (attr_time attrs),
       self_x = None, self_y = None, self_z = None \<rparr>"

text \<open>
  \<^verbatim>\<open>HindmarshRose(**kwargs)\<close>: the assignments, then \<^verbatim>\<open>check_parameters\<close>. A failed
  assertion leaves the caller with the error and no object.
\<close>

definition init :: "kwargs \<Rightarrow> error + HindmarshRose" where
  "init kw =
     (let attrs = init_attributes kw in
      case check_parameters attrs of
        Inl e \<Rightarrow> Inl e
      | Inr _ \<Rightarrow> Inr (object_of attrs))"

text \<open>The property \<^verbatim>\<open>tvec\<close>: \<^verbatim>\<open>np.arange(0, self.time, self.dt)\<close>, computed at every access.\<close>

definition tvec :: "HindmarshRose \<Rightarrow> error + real list" where
  "tvec self = np_arange 0 (self_time self) (self_dt self)"

text \<open>
  \<^verbatim>\<open>system_equations(self, X, t, I)\<close>. The body reads \<^verbatim>\<open>X[0]\<close>, \<^verbatim>\<open>X[1]\<close> and \<^verbatim>\<open>X[2]\<close>; a
  state with fewer than three entries raises \<^verbatim>\<open>IndexError\<close>.
\<close>

definition system_equations ::
    "HindmarshRose \<Rightarrow> real list \<Rightarrow> real \<Rightarrow> real \<Rightarrow> error + real list" where
  "system_equations self X t I =
     (if length X < 3 then Inl IndexError
      else Inr [X ! 1 - self_a self * (X ! 0) ^ 3 + self_b self * (X ! 0) ^ 2 - X ! 2 + I,
                self_c self - self_d self * (X ! 0) ^ 2 - X ! 1,
                self_r self * (self_s self * (X ! 0 - self_x1 self) - X ! 2)])"

text \<open>
  \<^verbatim>\<open>scipy.integrate.odeint\<close> is not code of the repository: \<^verbatim>\<open>run\<close> takes the solver as a
  parameter. It is called as \<^verbatim>\<open>odeint(func, y0, t, (I,))\<close>, calls \<^verbatim>\<open>func(y, t, I)\<close>, and
  returns a two-dimensional array or raises.
\<close>

type_synonym rhs = "real list \<Rightarrow> real \<Rightarrow> real \<Rightarrow> error + real list"

type_synonym solver = "rhs \<Rightarrow> real list \<Rightarrow> real list \<Rightarrow> real \<Rightarrow> error + ndarray"

text \<open>
  \<^verbatim>\<open>run(self, X0, I)\<close>; \<open>None\<close> for \<^verbatim>\<open>I\<close> is the default. The result is the object after the
  call with what the call did: \<open>Inr ()\<close> when it returned (it returns nothing), \<open>Inl e\<close> when
  it raised \<open>e\<close>. The assignment to \<^verbatim>\<open>self.I\<close> happens before anything can raise, so it
  survives a failure; the three columns are all taken before the first of \<^verbatim>\<open>self.x\<close>,
  \<^verbatim>\<open>self.y\<close>, \<^verbatim>\<open>self.z\<close> is assigned.
\<close>

definition run ::
    "solver \<Rightarrow> HindmarshRose \<Rightarrow> real list \<Rightarrow> real option \<Rightarrow> HindmarshRose \<times> (error + unit)" where
  "run odeint self X0 I =
     (let self1 = (case I of None \<Rightarrow> self | Some v \<Rightarrow> self\<lparr>self_I := v\<rparr>);
          I1 = (case I of None \<Rightarrow> self_I self | Some v \<Rightarrow> v)
      in case tvec self1 of
           Inl e \<Rightarrow> (self1, Inl e)
         | Inr ts \<Rightarrow>
            (case odeint (system_equations self1) X0 ts I1 of
               Inl e \<Rightarrow> (self1, Inl e)
             | Inr X \<Rightarrow>
                (case column X 0 of
                   Inl e \<Rightarrow> (self1, Inl e)
                 | Inr xs \<Rightarrow>
                    (case column X 1 of
                       Inl e \<Rightarrow> (self1, Inl e)
                     | Inr ys \<Rightarrow>
                        (case column X 2 of
                           Inl e \<Rightarrow> (self1, Inl e)
                         | Inr zs \<Rightarrow>
                            (self1\<lparr>self_x := Some xs, self_y := Some ys, self_z := Some zs\<rparr>,
                             Inr ()))))))"

text \<open>The default of \<^verbatim>\<open>X0\<close>.\<close>

definition X0_default :: "real list" where
  "X0_default = [0, 0, 0]"

section \<open>A fixed-step solver for concrete runs\<close>

text \<open>
  An explicit Euler integrator with the calling convention of \<^verbatim>\<open>odeint\<close>: the first row of
  its result is \<open>y0\<close>, each further row one Euler step to the next grid point. It raises
  what the right-hand side raises, and rejects a derivative whose size is not that of the
  state. It stands for no library: it is the solver at which general statements about
  \<open>run\<close> are evaluated.
\<close>

fun euler_rows :: "rhs \<Rightarrow> real list \<Rightarrow> real \<Rightarrow> real list \<Rightarrow> real \<Rightarrow> error + real list list" where
  "euler_rows f y t [] I = Inr []"
| "euler_rows f y t (t' # ts) I =
     (case f y t I of
        Inl e \<Rightarrow> Inl e
      | Inr dy \<Rightarrow>
         if length dy \<noteq> length y then Inl (RuntimeError ''size of the derivative'')
         else (let y' = map2 (\<lambda>yi di. yi + (t' - t) * di) y dy
               in case euler_rows f y' t' ts I of
                    Inl e \<Rightarrow> Inl e
                  | Inr rs \<Rightarrow> Inr (y' # rs)))"

definition euler_odeint :: solver where
  "euler_odeint f y0 ts I =
     (case ts of
        [] \<Rightarrow> Inr (NDArray (length y0) [])
      | t0 # ts' \<Rightarrow>
         (case euler_rows f y0 t0 ts' I of
            Inl e \<Rightarrow> Inl e
          | Inr rs \<Rightarrow> Inr (NDArray (length y0) (y0 # rs))))"

section \<open>Vocabulary of the statements\<close>

text \<open>The keys \<^verbatim>\<open>__init__\<close> looks up in \<^verbatim>\<open>kwargs\<close>.\<close>

definition recognized :: "string list" where
  "recognized = [''I'', ''a'', ''b'', ''c'', ''d'', ''r'', ''s'', ''x1'', ''dt'', ''time'']"

text \<open>Two objects with the same ten parameters; their stored trajectories may differ.\<close>

definition same_parameters :: "HindmarshRose \<Rightarrow> HindmarshRose \<Rightarrow> bool" where
  "same_parameters m1 m2 =
     (self_I m1 = self_I m2 \<and> self_a m1 = self_a m2 \<and> self_b m1 = self_b m2 \<and>
      self_c m1 = self_c m2 \<and> self_d m1 = self_d m2 \<and> self_r m1 = self_r m2 \<and>
      self_s m1 = self_s m2 \<and> self_x1 m1 = self_x1 m2 \<and> self_dt m1 = self_dt m2 \<and>
      self_time m1 = self_time m2)"

text \<open>The object \<^verbatim>\<open>HindmarshRose()\<close> builds from the defaults alone.\<close>

definition default_object :: HindmarshRose where
  "default_object = object_of (init_attributes Map.empty)"

text \<open>
  Objects at which the statements about \<open>run\<close> are evaluated: a grid of two points, the
  object after a run on it with the fixed-step solver, and a grid that runs backwards.
\<close>

definition coarse_object :: HindmarshRose where
  "coarse_object = default_object\<lparr>self_dt := 1/2, self_time := 1\<rparr>"

definition coarse_after_run :: HindmarshRose where
  "coarse_after_run =
     coarse_object\<lparr>self_x := Some [0, 1/2], self_y := Some [0, 1/4], self_z := Some [0, 1/2]\<rparr>"


section \<open>The right-hand side\<close>


text \<open>A state with fewer than three entries: the body indexes out of range.\<close>

lemma system_equations_short_state:
  "length X < 3 \<Longrightarrow> system_equations self X t cur = Inl IndexError"
  by (simp add: system_equations_def)

section \<open>The time grid\<close>

lemma default_object_fields:
  "default_object = \<lparr> self_I = 1, self_a = 1/2, self_b = 1/2, self_c = 1/2, self_d = 1/2,
      self_r = 1, self_s = 1, self_x1 = - 1, self_dt = 1/100, self_time = 100,
      self_x = None, self_y = None, self_z = None \<rparr>"
  by (simp add: default_object_def object_of_def init_attributes_def kwargs_get_def)





section \<open>What \<open>run\<close> reads and what it returns\<close>

lemma system_equations_ignores_state [simp]:
  "system_equations (self\<lparr>self_I := v\<rparr>) = system_equations self"
  "system_equations (self\<lparr>self_x := px\<rparr>) = system_equations self"
  "system_equations (self\<lparr>self_y := py\<rparr>) = system_equations self"
  "system_equations (self\<lparr>self_z := pz\<rparr>) = system_equations self"
  by (intro ext, simp add: system_equations_def)+

lemma tvec_ignores_state [simp]:
  "tvec (self\<lparr>self_I := v\<rparr>) = tvec self"
  "tvec (self\<lparr>self_x := px\<rparr>) = tvec self"
  "tvec (self\<lparr>self_y := py\<rparr>) = tvec self"
  "tvec (self\<lparr>self_z := pz\<rparr>) = tvec self"
  by (simp_all add: tvec_def)

text \<open>The four ways a call ends: the grid raises, the solver raises, a column is missing, or it returns.\<close>

lemma run_tvec_error:
  "tvec self = Inl e \<Longrightarrow>
   run odeint self X0 I = ((case I of None \<Rightarrow> self | Some v \<Rightarrow> self\<lparr>self_I := v\<rparr>), Inl e)"
  by (cases I) (simp_all add: run_def)

lemma run_solver_error:
  "tvec self = Inr ts \<Longrightarrow>
   odeint (system_equations self) X0 ts (case I of None \<Rightarrow> self_I self | Some v \<Rightarrow> v) = Inl e \<Longrightarrow>
   run odeint self X0 I = ((case I of None \<Rightarrow> self | Some v \<Rightarrow> self\<lparr>self_I := v\<rparr>), Inl e)"
  by (cases I) (simp_all add: run_def)

lemma run_column_error:
  "tvec self = Inr ts \<Longrightarrow>
   odeint (system_equations self) X0 ts (case I of None \<Rightarrow> self_I self | Some v \<Rightarrow> v) = Inr X \<Longrightarrow>
   ncols X < 3 \<Longrightarrow>
   run odeint self X0 I =
     ((case I of None \<Rightarrow> self | Some v \<Rightarrow> self\<lparr>self_I := v\<rparr>), Inl IndexError)"
  by (cases I) (simp_all add: run_def column_def)

lemma run_success:
  "tvec self = Inr ts \<Longrightarrow>
   odeint (system_equations self) X0 ts (case I of None \<Rightarrow> self_I self | Some v \<Rightarrow> v) = Inr X \<Longrightarrow>
   3 \<le> ncols X \<Longrightarrow>
   run odeint self X0 I =
     ((case I of None \<Rightarrow> self | Some v \<Rightarrow> self\<lparr>self_I := v\<rparr>)
        \<lparr>self_x := Some (map (\<lambda>row. row ! 0) (rows X)),
         self_y := Some (map (\<lambda>row. row ! 1) (rows X)),
         self_z := Some (map (\<lambda>row. row ! 2) (rows X))\<rparr>, Inr ())"
  by (cases I) (simp_all add: run_def column_def)

lemma run_outcome:
  "(\<exists>e. run odeint self X0 I = ((case I of None \<Rightarrow> self | Some v \<Rightarrow> self\<lparr>self_I := v\<rparr>), Inl e))
   \<or> (\<exists>ts X. tvec self = Inr ts
         \<and> odeint (system_equations self) X0 ts (case I of None \<Rightarrow> self_I self | Some v \<Rightarrow> v) = Inr X
         \<and> 3 \<le> ncols X
         \<and> run odeint self X0 I =
             ((case I of None \<Rightarrow> self | Some v \<Rightarrow> self\<lparr>self_I := v\<rparr>)
                \<lparr>self_x := Some (map (\<lambda>row. row ! 0) (rows X)),
                 self_y := Some (map (\<lambda>row. row ! 1) (rows X)),
                 self_z := Some (map (\<lambda>row. row ! 2) (rows X))\<rparr>, Inr ()))"
proof (cases "tvec self")
  case (Inl e)
  then show ?thesis using run_tvec_error by blast
next
  case (Inr ts)
  note grid = this
  show ?thesis
  proof (cases "odeint (system_equations self) X0 ts (case I of None \<Rightarrow> self_I self | Some v \<Rightarrow> v)")
    case (Inl e)
    then show ?thesis using run_solver_error [where odeint = odeint and I = I, OF grid] by blast
  next
    case (Inr X)
    show ?thesis
    proof (cases "3 \<le> ncols X")
      case True
      then show ?thesis
        using run_success [where odeint = odeint and I = I, OF grid Inr] grid Inr by blast
    next
      case False
      then have "ncols X < 3" by simp
      then show ?thesis
        using run_column_error [where odeint = odeint and I = I, OF grid Inr] by blast
    qed
  qed
qed

lemma stored_current:
  "(case I of None \<Rightarrow> self | Some v \<Rightarrow> self\<lparr>self_I := v\<rparr>)
     = self\<lparr>self_I := (case I of None \<Rightarrow> self_I self | Some v \<Rightarrow> v)\<rparr>"
  by (cases I) simp_all





text \<open>The run on the two-point grid, from rest, with the stored current 1.\<close>

lemma coarse_grid: "tvec coarse_object = Inr [0, 1/2]"
  by (simp add: coarse_object_def tvec_def np_arange_def numeral_2_eq_2)

lemma coarse_solve:
  "euler_odeint (system_equations coarse_object) [0, 0, 0] [0, 1/2] 1
     = Inr (NDArray 3 [[0, 0, 0], [1/2, 1/4, 1/2]])"
  by (simp add: coarse_object_def euler_odeint_def system_equations_def default_object_fields)

lemma coarse_run: "run euler_odeint coarse_object [0, 0, 0] None = (coarse_after_run, Inr ())"
proof -
  have cur: "(case None of None \<Rightarrow> self_I coarse_object | Some v \<Rightarrow> v) = 1"
    by (simp add: coarse_object_def default_object_fields)
  have sol: "euler_odeint (system_equations coarse_object) [0, 0, 0] [0, 1/2]
       (case None of None \<Rightarrow> self_I coarse_object | Some v \<Rightarrow> v)
     = Inr (NDArray 3 [[0, 0, 0], [1/2, 1/4, 1/2]])"
    unfolding cur by (rule coarse_solve)
  have cols: "3 \<le> ncols (NDArray 3 [[0, 0, 0], [1/2, 1/4, 1/2]])" by simp
  show ?thesis
    unfolding run_success [where odeint = euler_odeint and I = None, OF coarse_grid sol cols]
    by (simp add: coarse_after_run_def)
qed

section \<open>The current\<close>


section \<open>The frame of \<open>run\<close>\<close>

text \<open>
  C10. Whatever \<^verbatim>\<open>run\<close> does, the object afterwards is the object before with at most
  \<^verbatim>\<open>self.I\<close>, \<^verbatim>\<open>self.x\<close>, \<^verbatim>\<open>self.y\<close> and \<^verbatim>\<open>self.z\<close> changed: \<open>a, b, c, d, r, s, x1, dt, time\<close> are
  as before, \<^verbatim>\<open>self.I\<close> is the current given, and with the current omitted (\<open>None\<close>) it is
  the stored \<^verbatim>\<open>self.I\<close>, unchanged.
\<close>

theorem run_frame:
  "(\<exists>tx ty tz. fst (run odeint self X0 I) =
       self\<lparr>self_I := (case I of None \<Rightarrow> self_I self | Some v \<Rightarrow> v),
            self_x := tx, self_y := ty, self_z := tz\<rparr>)
   \<and> self_I (fst (run odeint self X0 None)) = self_I self
   \<and> self_I (fst (run odeint self X0 (Some v))) = v"
proof -
  have frame: "\<exists>tx ty tz. fst (run odeint self X0 J) =
       self\<lparr>self_I := (case J of None \<Rightarrow> self_I self | Some v \<Rightarrow> v),
            self_x := tx, self_y := ty, self_z := tz\<rparr>" for J
  proof -
    let ?s1 = "self\<lparr>self_I := (case J of None \<Rightarrow> self_I self | Some v \<Rightarrow> v)\<rparr>"
    from run_outcome [of odeint self X0 J]
    consider (fail) e where "run odeint self X0 J = (?s1, Inl e)"
      | (ok) tx ty tz where
          "run odeint self X0 J = (?s1\<lparr>self_x := tx, self_y := ty, self_z := tz\<rparr>, Inr ())"
      unfolding stored_current by blast
    then show ?thesis
    proof cases
      case fail
      then have "fst (run odeint self X0 J)
          = ?s1\<lparr>self_x := self_x self, self_y := self_y self, self_z := self_z self\<rparr>"
        by simp
      then show ?thesis by blast
    next
      case ok
      then have "fst (run odeint self X0 J) = ?s1\<lparr>self_x := tx, self_y := ty, self_z := tz\<rparr>"
        by simp
      then show ?thesis by blast
    qed
  qed
  from frame [of None] have none: "self_I (fst (run odeint self X0 None)) = self_I self"
    by auto
  from frame [of "Some v"] have some: "self_I (fst (run odeint self X0 (Some v))) = v"
    by auto
  show ?thesis using frame [of I] none some by blast
qed

section \<open>The stored trajectory\<close>



section \<open>Determinism\<close>

lemma same_parameters_reads:
  assumes "same_parameters m1 m2"
  shows "tvec m1 = tvec m2" and "system_equations m1 = system_equations m2"
    and "self_I m1 = self_I m2"
  using assms by (auto simp: same_parameters_def tvec_def system_equations_def fun_eq_iff)

text \<open>
  C8. Two calls of \<^verbatim>\<open>run\<close> with the same solver, on objects with the same ten parameters,
  with the same initial state and the same current, end the same way, and when they
  return they have stored the same \<open>x\<close>, \<open>y\<close> and \<open>z\<close>, whatever trajectories the two
  objects held before.
\<close>

theorem run_deterministic:
  assumes same: "same_parameters m1 m2"
  shows "snd (run odeint m1 X0 I) = snd (run odeint m2 X0 I)
       \<and> (snd (run odeint m1 X0 I) = Inr () \<longrightarrow>
            self_x (fst (run odeint m1 X0 I)) = self_x (fst (run odeint m2 X0 I))
          \<and> self_y (fst (run odeint m1 X0 I)) = self_y (fst (run odeint m2 X0 I))
          \<and> self_z (fst (run odeint m1 X0 I)) = self_z (fst (run odeint m2 X0 I))
          \<and> self_x (fst (run odeint m1 X0 I)) \<noteq> None)"
proof -
  note rd = same_parameters_reads [OF same]
  have ceq: "(case I of None \<Rightarrow> self_I m1 | Some v \<Rightarrow> v)
           = (case I of None \<Rightarrow> self_I m2 | Some v \<Rightarrow> v)"
    by (cases I) (simp_all add: rd)
  show ?thesis
  proof (cases "tvec m1")
    case (Inl e)
    then have "tvec m2 = Inl e" using rd by simp
    then show ?thesis using Inl by (simp add: run_tvec_error)
  next
    case (Inr ts)
    then have g2: "tvec m2 = Inr ts" using rd by simp
    note g1 = Inr
    show ?thesis
    proof (cases "odeint (system_equations m1) X0 ts (case I of None \<Rightarrow> self_I m1 | Some v \<Rightarrow> v)")
      case (Inl e)
      then have "odeint (system_equations m2) X0 ts (case I of None \<Rightarrow> self_I m2 | Some v \<Rightarrow> v) = Inl e"
        using rd(2) ceq by simp
      then show ?thesis using Inl
        by (simp add: run_solver_error [where odeint = odeint and I = I, OF g1]
            run_solver_error [where odeint = odeint and I = I, OF g2])
    next
      case (Inr X)
      then have s2: "odeint (system_equations m2) X0 ts (case I of None \<Rightarrow> self_I m2 | Some v \<Rightarrow> v) = Inr X"
        using rd(2) ceq by simp
      show ?thesis
      proof (cases "3 \<le> ncols X")
        case True
        show ?thesis
          by (simp add: run_success [where odeint = odeint and I = I, OF g1 Inr True]
              run_success [where odeint = odeint and I = I, OF g2 s2 True])
      next
        case False
        then have c: "ncols X < 3" by simp
        show ?thesis
          by (simp add: run_column_error [where odeint = odeint and I = I, OF g1 Inr c]
              run_column_error [where odeint = odeint and I = I, OF g2 s2 c])
      qed
    qed
  qed
qed

text \<open>The two-point grid again, on an object that holds an old trajectory.\<close>

theorem run_deterministic_witness:
  "same_parameters coarse_object (coarse_object\<lparr>self_x := Some [9], self_z := Some []\<rparr>)
   \<and> snd (run euler_odeint (coarse_object\<lparr>self_x := Some [9], self_z := Some []\<rparr>) [0, 0, 0] None)
       = Inr ()
   \<and> self_x (fst (run euler_odeint (coarse_object\<lparr>self_x := Some [9], self_z := Some []\<rparr>)
        [0, 0, 0] None)) = Some [0, 1/2]
   \<and> self_y (fst (run euler_odeint (coarse_object\<lparr>self_x := Some [9], self_z := Some []\<rparr>)
        [0, 0, 0] None)) = Some [0, 1/4]
   \<and> self_z (fst (run euler_odeint (coarse_object\<lparr>self_x := Some [9], self_z := Some []\<rparr>)
        [0, 0, 0] None)) = Some [0, 1/2]"
proof -
  let ?m2 = "coarse_object\<lparr>self_x := Some [9], self_z := Some []\<rparr>"
  let ?r1 = "run euler_odeint coarse_object [0, 0, 0] None"
  let ?r2 = "run euler_odeint ?m2 [0, 0, 0] None"
  have same: "same_parameters coarse_object ?m2"
    by (simp add: same_parameters_def)
  note det = run_deterministic [OF same, of euler_odeint "[0, 0, 0]" None]
  have s1: "snd ?r1 = Inr ()" by (simp add: coarse_run)
  have x1: "self_x (fst ?r1) = Some [0, 1/2]" and y1: "self_y (fst ?r1) = Some [0, 1/4]"
    and z1: "self_z (fst ?r1) = Some [0, 1/2]"
    by (simp_all add: coarse_run coarse_after_run_def)
  from det s1 have s2: "snd ?r2 = Inr ()" by simp
  from det s1 have x2: "self_x (fst ?r1) = self_x (fst ?r2)"
    and y2: "self_y (fst ?r1) = self_y (fst ?r2)" and z2: "self_z (fst ?r1) = self_z (fst ?r2)"
    by blast+
  from x1 x2 have x: "self_x (fst ?r2) = Some [0, 1/2]" by simp
  from y1 y2 have y: "self_y (fst ?r2) = Some [0, 1/4]" by simp
  from z1 z2 have z: "self_z (fst ?r2) = Some [0, 1/2]" by simp
  show ?thesis using same s2 x y z by blast
qed

section \<open>The initial state\<close>

text \<open>
  \<^verbatim>\<open>run\<close> does not look at \<^verbatim>\<open>X0\<close>: it hands it to the solver. With a solver whose result
  has as many columns as the state has entries, a state of fewer than three entries makes
  the call raise: the solver raises, or \<^verbatim>\<open>X[:, 2]\<close> does.
\<close>

lemma run_short_state:
  assumes short: "length X0 < 3"
      and shape: "\<forall>f y0 ts c X. odeint f y0 ts c = Inr X \<longrightarrow> ncols X = length y0"
  shows "\<exists>e. run odeint self X0 I
            = ((case I of None \<Rightarrow> self | Some v \<Rightarrow> self\<lparr>self_I := v\<rparr>), Inl e)"
proof -
  from run_outcome [of odeint self X0 I]
  show ?thesis
  proof
    assume "\<exists>e. run odeint self X0 I
            = ((case I of None \<Rightarrow> self | Some v \<Rightarrow> self\<lparr>self_I := v\<rparr>), Inl e)"
    then show ?thesis .
  next
    assume "\<exists>ts X. tvec self = Inr ts
         \<and> odeint (system_equations self) X0 ts (case I of None \<Rightarrow> self_I self | Some v \<Rightarrow> v) = Inr X
         \<and> 3 \<le> ncols X
         \<and> run odeint self X0 I =
             ((case I of None \<Rightarrow> self | Some v \<Rightarrow> self\<lparr>self_I := v\<rparr>)
                \<lparr>self_x := Some (map (\<lambda>row. row ! 0) (rows X)),
                 self_y := Some (map (\<lambda>row. row ! 1) (rows X)),
                 self_z := Some (map (\<lambda>row. row ! 2) (rows X))\<rparr>, Inr ())"
    then obtain ts X where
      "odeint (system_equations self) X0 ts (case I of None \<Rightarrow> self_I self | Some v \<Rightarrow> v) = Inr X"
      and "3 \<le> ncols X" by blast
    with shape have "3 \<le> length X0" by auto
    with short show ?thesis by simp
  qed
qed

section \<open>Degenerate steps and durations\<close>







section \<open>Construction\<close>

lemma check_parameters_outcome:
  "check_parameters attrs = Inr () \<or> (\<exists>msg. check_parameters attrs = Inl (AssertionError msg))"
  by (simp add: check_parameters_def)

lemma check_parameters_accepts:
  "(check_parameters attrs = Inr ()) =
     (isinstance_int_float (attr_I attrs) \<and> isinstance_int_float (attr_a attrs) \<and>
      isinstance_int_float (attr_b attrs) \<and> isinstance_int_float (attr_c attrs) \<and>
      isinstance_int_float (attr_d attrs) \<and> isinstance_int_float (attr_r attrs) \<and>
      isinstance_int_float (attr_s attrs) \<and> isinstance_int_float (attr_x1 attrs) \<and>
      isinstance_int_float (attr_dt attrs) \<and> isinstance_int_float (attr_time attrs))"
  by (auto simp add: check_parameters_def)

lemma init_accepts:
  "check_parameters (init_attributes kw) = Inr () \<Longrightarrow> init kw = Inr (object_of (init_attributes kw))"
  by (simp add: init_def)

lemma init_rejects:
  "check_parameters (init_attributes kw) \<noteq> Inr () \<Longrightarrow> \<exists>msg. init kw = Inl (AssertionError msg)"
  using check_parameters_outcome [of "init_attributes kw"] by (auto simp: init_def)

lemma kwargs_get_given: "kw k = Some v \<Longrightarrow> kwargs_get kw k dflt = v"
  by (simp add: kwargs_get_def)

lemma kwargs_get_numeric:
  "(\<forall>v. kw k = Some v \<longrightarrow> isinstance_int_float v) \<Longrightarrow> isinstance_int_float dflt \<Longrightarrow>
   isinstance_int_float (kwargs_get kw k dflt)"
  by (cases "kw k") (simp_all add: kwargs_get_def)

lemma init_attributes_cong:
  "\<forall>k \<in> set recognized. kw k = kw' k \<Longrightarrow> init_attributes kw = init_attributes kw'"
  by (simp add: init_attributes_def kwargs_get_def recognized_def)

text \<open>
  C4. If any of the ten options \<open>I, a, b, c, d, r, s, x1, dt, time\<close> is given a value that
  is not an \<^verbatim>\<open>int\<close>, a \<^verbatim>\<open>float\<close> or a \<^verbatim>\<open>bool\<close>, construction raises (the \<^verbatim>\<open>AssertionError\<close> of
  \<^verbatim>\<open>check_parameters\<close>) and yields no object; if every option that is given holds such a
  number, construction succeeds.
\<close>

theorem init_type_validation:
  "(k \<in> set recognized \<and> kw k = Some v \<and> \<not> isinstance_int_float v
      \<longrightarrow> (\<exists>msg. init kw = Inl (AssertionError msg)))
   \<and> ((\<forall>k \<in> set recognized. \<forall>v. kw k = Some v \<longrightarrow> isinstance_int_float v)
      \<longrightarrow> init kw = Inr (object_of (init_attributes kw)))"
proof (intro conjI impI)
  assume bad: "k \<in> set recognized \<and> kw k = Some v \<and> \<not> isinstance_int_float v"
  then have "check_parameters (init_attributes kw) \<noteq> Inr ()"
    unfolding check_parameters_accepts
    by (auto simp: recognized_def init_attributes_def kwargs_get_given)
  then show "\<exists>msg. init kw = Inl (AssertionError msg)"
    by (rule init_rejects)
next
  assume good: "\<forall>k \<in> set recognized. \<forall>v. kw k = Some v \<longrightarrow> isinstance_int_float v"
  have "check_parameters (init_attributes kw) = Inr ()"
    unfolding check_parameters_accepts
    using good by (simp add: recognized_def init_attributes_def kwargs_get_numeric)
  then show "init kw = Inr (object_of (init_attributes kw))"
    by (rule init_accepts)
qed

text \<open>
  A string for \<open>s\<close> and \<^verbatim>\<open>None\<close> for \<open>time\<close> are refused; a \<^verbatim>\<open>bool\<close>, a \<^verbatim>\<open>float\<close> and an
  \<^verbatim>\<open>int\<close> are accepted.
\<close>

theorem init_type_validation_witness:
  "init [''s'' \<mapsto> PStr ''fast''] = Inl (AssertionError ''The parameter s has to be a number.'')
   \<and> init [''time'' \<mapsto> PNone] = Inl (AssertionError ''The time has to be a number.'')
   \<and> init [''I'' \<mapsto> PBool True, ''dt'' \<mapsto> PFloat (1/4), ''time'' \<mapsto> PInt 2]
       = Inr \<lparr> self_I = 1, self_a = 1/2, self_b = 1/2, self_c = 1/2, self_d = 1/2,
               self_r = 1, self_s = 1, self_x1 = - 1, self_dt = 1/4, self_time = 2,
               self_x = None, self_y = None, self_z = None \<rparr>"
proof -
  have bad_s: "\<exists>msg. init [''s'' \<mapsto> PStr ''fast''] = Inl (AssertionError msg)"
    using init_type_validation [of "''s''" "[''s'' \<mapsto> PStr ''fast'']" "PStr ''fast''"]
    by (simp add: recognized_def)
  have bad_time: "\<exists>msg. init [''time'' \<mapsto> PNone] = Inl (AssertionError msg)"
    using init_type_validation [of "''time''" "[''time'' \<mapsto> PNone]" PNone]
    by (simp add: recognized_def)
  have good: "init [''I'' \<mapsto> PBool True, ''dt'' \<mapsto> PFloat (1/4), ''time'' \<mapsto> PInt 2]
      = Inr (object_of (init_attributes
          [''I'' \<mapsto> PBool True, ''dt'' \<mapsto> PFloat (1/4), ''time'' \<mapsto> PInt 2]))"
    using init_type_validation
      [of "''I''" "[''I'' \<mapsto> PBool True, ''dt'' \<mapsto> PFloat (1/4), ''time'' \<mapsto> PInt 2]" PNone]
    by (simp add: recognized_def)
  have s_msg: "init [''s'' \<mapsto> PStr ''fast''] = Inl (AssertionError ''The parameter s has to be a number.'')"
    using bad_s by (simp add: init_def init_attributes_def kwargs_get_def check_parameters_def)
  have t_msg: "init [''time'' \<mapsto> PNone] = Inl (AssertionError ''The time has to be a number.'')"
    using bad_time by (simp add: init_def init_attributes_def kwargs_get_def check_parameters_def)
  show ?thesis using s_msg t_msg good
    by (simp add: object_of_def init_attributes_def kwargs_get_def)
qed

text \<open>
  C9. An option that is left out takes its default (\<open>I = 1\<close>, \<open>a = b = c = d = 0.5\<close>,
  \<open>r = s = 1\<close>, \<open>x1 = -1\<close>, \<open>dt = 0.01\<close>, \<open>time = 100\<close>), and options under any other name are
  ignored: construction depends on the ten recognized options alone.
\<close>

theorem init_defaults:
  "init Map.empty =
      Inr \<lparr> self_I = 1, self_a = 1/2, self_b = 1/2, self_c = 1/2, self_d = 1/2,
            self_r = 1, self_s = 1, self_x1 = - 1, self_dt = 1/100, self_time = 100,
            self_x = None, self_y = None, self_z = None \<rparr>
   \<and> (init kw = Inr self \<longrightarrow>
        (kw ''I'' = None \<longrightarrow> self_I self = 1) \<and>
        (kw ''a'' = None \<longrightarrow> self_a self = 1/2) \<and>
        (kw ''b'' = None \<longrightarrow> self_b self = 1/2) \<and>
        (kw ''c'' = None \<longrightarrow> self_c self = 1/2) \<and>
        (kw ''d'' = None \<longrightarrow> self_d self = 1/2) \<and>
        (kw ''r'' = None \<longrightarrow> self_r self = 1) \<and>
        (kw ''s'' = None \<longrightarrow> self_s self = 1) \<and>
        (kw ''x1'' = None \<longrightarrow> self_x1 self = - 1) \<and>
        (kw ''dt'' = None \<longrightarrow> self_dt self = 1/100) \<and>
        (kw ''time'' = None \<longrightarrow> self_time self = 100))
   \<and> (k \<notin> set recognized \<longrightarrow> init (kw(k \<mapsto> v)) = init kw)
   \<and> ((\<forall>k \<in> set recognized. kw k = kw' k) \<longrightarrow> init kw = init kw')"
proof (intro conjI impI)
  show "init Map.empty =
      Inr \<lparr> self_I = 1, self_a = 1/2, self_b = 1/2, self_c = 1/2, self_d = 1/2,
            self_r = 1, self_s = 1, self_x1 = - 1, self_dt = 1/100, self_time = 100,
            self_x = None, self_y = None, self_z = None \<rparr>"
    by (simp add: init_def init_attributes_def kwargs_get_def check_parameters_def object_of_def)
next
  assume "k \<notin> set recognized"
  then have "init_attributes (kw(k \<mapsto> v)) = init_attributes kw"
    by (intro init_attributes_cong) auto
  then show "init (kw(k \<mapsto> v)) = init kw" by (simp add: init_def)
next
  assume "\<forall>k \<in> set recognized. kw k = kw' k"
  then have "init_attributes kw = init_attributes kw'" by (rule init_attributes_cong)
  then show "init kw = init kw'" by (simp add: init_def)
next
  assume ok: "init kw = Inr self"
  then have obj: "self = object_of (init_attributes kw)"
    by (auto simp: init_def Let_def split: sum.splits)
  { assume "kw ''I'' = None" then show "self_I self = 1"
      by (simp add: obj object_of_def init_attributes_def kwargs_get_def) }
  { assume "kw ''a'' = None" then show "self_a self = 1/2"
      by (simp add: obj object_of_def init_attributes_def kwargs_get_def) }
  { assume "kw ''b'' = None" then show "self_b self = 1/2"
      by (simp add: obj object_of_def init_attributes_def kwargs_get_def) }
  { assume "kw ''c'' = None" then show "self_c self = 1/2"
      by (simp add: obj object_of_def init_attributes_def kwargs_get_def) }
  { assume "kw ''d'' = None" then show "self_d self = 1/2"
      by (simp add: obj object_of_def init_attributes_def kwargs_get_def) }
  { assume "kw ''r'' = None" then show "self_r self = 1"
      by (simp add: obj object_of_def init_attributes_def kwargs_get_def) }
  { assume "kw ''s'' = None" then show "self_s self = 1"
      by (simp add: obj object_of_def init_attributes_def kwargs_get_def) }
  { assume "kw ''x1'' = None" then show "self_x1 self = - 1"
      by (simp add: obj object_of_def init_attributes_def kwargs_get_def) }
  { assume "kw ''dt'' = None" then show "self_dt self = 1/100"
      by (simp add: obj object_of_def init_attributes_def kwargs_get_def) }
  { assume "kw ''time'' = None" then show "self_time self = 100"
      by (simp add: obj object_of_def init_attributes_def kwargs_get_def) }
qed

text \<open>Only \<open>a\<close> is given, with an option the class does not know.\<close>

theorem init_defaults_witness:
  "init [''a'' \<mapsto> PInt 2, ''colour'' \<mapsto> PStr ''red'']
     = Inr \<lparr> self_I = 1, self_a = 2, self_b = 1/2, self_c = 1/2, self_d = 1/2,
             self_r = 1, self_s = 1, self_x1 = - 1, self_dt = 1/100, self_time = 100,
             self_x = None, self_y = None, self_z = None \<rparr>
   \<and> init [''a'' \<mapsto> PInt 2, ''colour'' \<mapsto> PStr ''red''] = init [''a'' \<mapsto> PInt 2]"
proof -
  have plain: "init [''a'' \<mapsto> PInt 2]
     = Inr \<lparr> self_I = 1, self_a = 2, self_b = 1/2, self_c = 1/2, self_d = 1/2,
             self_r = 1, self_s = 1, self_x1 = - 1, self_dt = 1/100, self_time = 100,
             self_x = None, self_y = None, self_z = None \<rparr>"
    by (simp add: init_def init_attributes_def kwargs_get_def check_parameters_def object_of_def)
  have "''colour'' \<notin> set recognized" by (simp add: recognized_def)
  with init_defaults [of "[''a'' \<mapsto> PInt 2]" _ "''colour''" "PStr ''red''"]
  have "init [''a'' \<mapsto> PInt 2, ''colour'' \<mapsto> PStr ''red''] = init [''a'' \<mapsto> PInt 2]"
    by blast
  then show ?thesis using plain by simp
qed

end
